theory Spec2Isabelle
  imports Main
begin

section \<open>Python values\<close>

text \<open>
  The event handed to the function and the responses of the messaging client are
  Python objects decoded from JSON: \<open>None\<close>, booleans, integers, strings, lists and
  dictionaries with string keys. A dictionary is an association list in insertion
  order; a Python dictionary has no duplicate keys, and a lookup takes the first
  binding. Strings are lists of code points below 256. Floating-point numbers are
  not part of the model.
\<close>

datatype pyval =
    PNone
  | PBool bool
  | PInt int
  | PStr string
  | PList "pyval list"
  | PDict "(string \<times> pyval) list"

type_synonym pydict = "(string \<times> pyval) list"

text \<open>Truth value testing, as \<open>if x\<close>, \<open>not x\<close> and \<open>x if c else y\<close> use it.\<close>

fun truthy :: "pyval \<Rightarrow> bool" where
  "truthy PNone = False"
| "truthy (PBool b) = b"
| "truthy (PInt i) = (i \<noteq> 0)"
| "truthy (PStr s) = (s \<noteq> [])"
| "truthy (PList xs) = (xs \<noteq> [])"
| "truthy (PDict kvs) = (kvs \<noteq> [])"

text \<open>The name of the type of a value, as it appears in error messages.\<close>

fun type_name :: "pyval \<Rightarrow> string" where
  "type_name PNone = ''NoneType''"
| "type_name (PBool b) = ''bool''"
| "type_name (PInt i) = ''int''"
| "type_name (PStr s) = ''str''"
| "type_name (PList xs) = ''list''"
| "type_name (PDict kvs) = ''dict''"

subsection \<open>Exceptions\<close>

text \<open>
  \<open>BookingNotificationException\<close> is the one exception class the module declares. It
  is raised with a single argument: the provider's message in \<open>notify_booking\<close>, the
  caught exception itself in \<open>lambda_handler\<close>. \<open>AttributeError\<close> carries the type
  name and the attribute that type does not have, \<open>TypeError\<close> the name of the type
  of the value that was refused, \<open>BotoCoreError\<close> the name of the subclass the
  messaging client raised.
\<close>

datatype py_exception =
    ValueError string
  | AttributeError string string
  | KeyError string
  | TypeError string
  | BotoCoreError string
  | BookingNotificationException exception_arg
and exception_arg =
    ArgValue pyval
  | ArgException py_exception

type_synonym 'a result = "py_exception + 'a"

subsection \<open>Dictionary access\<close>

text \<open>\<open>d.get(key, default)\<close> on a dictionary never raises.\<close>

definition dict_get :: "pydict \<Rightarrow> string \<Rightarrow> pyval \<Rightarrow> pyval" where
  "dict_get d key dflt = (case map_of d key of Some v \<Rightarrow> v | None \<Rightarrow> dflt)"

text \<open>
  \<open>x.get(key, default)\<close> on an arbitrary value: only a dictionary has the method
  \<open>get\<close>; on every other value the attribute lookup raises \<open>AttributeError\<close>.
\<close>

fun py_get :: "pyval \<Rightarrow> string \<Rightarrow> pyval \<Rightarrow> pyval result" where
  "py_get (PDict d) key dflt = Inr (dict_get d key dflt)"
| "py_get v key dflt = Inl (AttributeError (type_name v) ''get'')"

text \<open>\<open>d[key]\<close> on a dictionary raises \<open>KeyError\<close> for a missing key.\<close>

definition dict_getitem :: "pydict \<Rightarrow> string \<Rightarrow> pyval result" where
  "dict_getitem d key = (case map_of d key of Some v \<Rightarrow> Inr v | None \<Rightarrow> Inl (KeyError key))"

text \<open>
  \<open>x[key]\<close> with a string key on an arbitrary value: a value that is not a
  dictionary is either not subscriptable or takes integer indices only, and raises
  \<open>TypeError\<close>.
\<close>

fun py_getitem :: "pyval \<Rightarrow> string \<Rightarrow> pyval result" where
  "py_getitem (PDict d) key = dict_getitem d key"
| "py_getitem v key = Inl (TypeError (type_name v))"

subsection \<open>Text of a value\<close>

text \<open>
  A replacement field \<open>{x}\<close> of an f-string inserts \<open>str(x)\<close>. For a string that is
  the string itself; for \<open>None\<close>, booleans and integers it is their literal; for a
  list or a dictionary it is the \<open>repr\<close> of the container, which quotes the strings
  inside. Integers are unbounded; the interpreter's limit on the number of digits
  of an integer turned into text is not modelled.
\<close>

definition digit_char :: "nat \<Rightarrow> char" where
  "digit_char d = (if d < 10 then char_of (48 + d) else char_of (87 + d))"

fun str_nat :: "nat \<Rightarrow> string" where
  "str_nat n = (if n < 10 then [digit_char n] else str_nat (n div 10) @ [digit_char (n mod 10)])"

declare str_nat.simps [simp del]

definition str_int :: "int \<Rightarrow> string" where
  "str_int i = (if i < 0 then CHR ''-'' # str_nat (nat (- i)) else str_nat (nat i))"

definition hex2 :: "char \<Rightarrow> string" where
  "hex2 c = [digit_char (of_char c div 16), digit_char (of_char c mod 16)]"

fun join :: "string \<Rightarrow> string list \<Rightarrow> string" where
  "join sep [] = []"
| "join sep [x] = x"
| "join sep (x # y # ys) = x @ sep @ join sep (y # ys)"

text \<open>
  \<open>repr\<close> of a string: double quotes when the string has a single quote and no
  double quote, single quotes otherwise; the quote and the backslash are escaped,
  tab, line feed and carriage return have their letter, and every other
  non-printable code point is written \<open>\xhh\<close>. Below 256 the non-printable code
  points are the controls (below 32, and 127 to 159), the no-break space 160 and
  the soft hyphen 173.
\<close>

definition printable :: "char \<Rightarrow> bool" where
  "printable c =
     (let n = (of_char c :: nat) in 32 \<le> n \<and> n \<noteq> 173 \<and> (n < 127 \<or> 160 < n))"

definition repr_char :: "char \<Rightarrow> char \<Rightarrow> string" where
  "repr_char quote c =
     (if c = quote \<or> c = CHR 0x5C then [CHR 0x5C, c]
      else if c = CHR 0x09 then [CHR 0x5C, CHR ''t'']
      else if c = CHR 0x0A then [CHR 0x5C, CHR ''n'']
      else if c = CHR 0x0D then [CHR 0x5C, CHR ''r'']
      else if \<not> printable c then [CHR 0x5C, CHR ''x''] @ hex2 c
      else [c])"

definition repr_str :: "string \<Rightarrow> string" where
  "repr_str s =
     (let quote = (if CHR 0x27 \<in> set s \<and> CHR 0x22 \<notin> set s then CHR 0x22 else CHR 0x27)
      in [quote] @ concat (map (repr_char quote) s) @ [quote])"

fun py_repr :: "pyval \<Rightarrow> string" where
  "py_repr PNone = ''None''"
| "py_repr (PBool b) = (if b then ''True'' else ''False'')"
| "py_repr (PInt i) = str_int i"
| "py_repr (PStr s) = repr_str s"
| "py_repr (PList xs) = ''['' @ join '', '' (map py_repr xs) @ '']''"
| "py_repr (PDict kvs) =
     ''{'' @ join '', '' (map (\<lambda>(k, v). repr_str k @ '': '' @ py_repr v) kvs) @ ''}''"

fun py_str :: "pyval \<Rightarrow> string" where
  "py_str (PStr s) = s"
| "py_str v = py_repr v"

subsection \<open>JSON text of a value\<close>

text \<open>
  \<open>json.dumps\<close> with its default settings: item separator \<open>", "\<close>, key separator
  \<open>": "\<close>, and only the printable ASCII characters other than the double quote and
  the backslash are written as they are.
\<close>

definition json_char :: "char \<Rightarrow> string" where
  "json_char c =
     (if c = CHR 0x22 then [CHR 0x5C, CHR 0x22]
      else if c = CHR 0x5C then [CHR 0x5C, CHR 0x5C]
      else if c = CHR 0x0A then [CHR 0x5C, CHR ''n'']
      else if c = CHR 0x0D then [CHR 0x5C, CHR ''r'']
      else if c = CHR 0x09 then [CHR 0x5C, CHR ''t'']
      else if c = CHR 0x08 then [CHR 0x5C, CHR ''b'']
      else if c = CHR 0x0C then [CHR 0x5C, CHR ''f'']
      else if (of_char c :: nat) < 32 \<or> 126 < (of_char c :: nat)
        then [CHR 0x5C, CHR ''u'', CHR ''0'', CHR ''0''] @ hex2 c
      else [c])"

definition json_str :: "string \<Rightarrow> string" where
  "json_str s = [CHR 0x22] @ concat (map json_char s) @ [CHR 0x22]"

fun json_dumps :: "pyval \<Rightarrow> string" where
  "json_dumps PNone = ''null''"
| "json_dumps (PBool b) = (if b then ''true'' else ''false'')"
| "json_dumps (PInt i) = str_int i"
| "json_dumps (PStr s) = json_str s"
| "json_dumps (PList xs) = ''['' @ join '', '' (map json_dumps xs) @ '']''"
| "json_dumps (PDict kvs) =
     ''{'' @ join '', '' (map (\<lambda>(k, v). json_str k @ '': '' @ json_dumps v) kvs) @ ''}''"

section \<open>The messaging service\<close>

text \<open>
  The arguments of one \<open>sns.publish\<close> call. \<open>TopicArn\<close> is the value of the
  environment variable \<open>BOOKING_TOPIC\<close>, read once when the module is loaded;
  \<open>os.getenv\<close> gives \<open>None\<close> when the variable is not set.
\<close>

record message_attribute =
  DataType :: string
  StringValue :: string

record publish_request =
  TopicArn :: "string option"
  Message :: string
  Subject :: string
  MessageAttributes :: "(string \<times> message_attribute) list"

text \<open>
  The client either returns the provider's response, a dictionary, or raises
  \<open>ClientError\<close>, whose attribute \<open>response\<close> is the provider's error response,
  again a dictionary, or raises an exception of its own, a subclass of
  \<open>BotoCoreError\<close> named here by its class: \<open>ParamValidationError\<close> for a request
  it refuses to build, as one without a topic, \<open>EndpointConnectionError\<close> for a
  service it cannot reach. \<open>ClientError\<close> is the exception the client raises for
  every error the service reports, and the only one \<open>notify_booking\<close> handles.
\<close>

datatype publish_outcome =
    Returned pydict
  | ClientError pydict
  | OtherError string

text \<open>
  The client and the service behind it are outside the program. They are a
  parameter of the model: any function from the arguments of a call and the state
  of the service to an outcome and the next state. The world of one invocation is
  the state of the service together with the publish calls made so far, oldest
  first.
\<close>

type_synonym 's sns_client = "publish_request \<Rightarrow> 's \<Rightarrow> publish_outcome \<times> 's"

record 's world =
  service :: 's
  published :: "publish_request list"

definition sns_publish ::
  "'s sns_client \<Rightarrow> publish_request \<Rightarrow> 's world \<Rightarrow> publish_outcome \<times> 's world" where
  "sns_publish sns request w =
     (let (outcome, s') = sns request (service w)
      in (outcome, \<lparr>service = s', published = published w @ [request]\<rparr>))"

section \<open>The notifier\<close>

text \<open>
  The subject, the status and the arguments of the publish call that
  \<open>notify_booking\<close> computes before it calls the service.
\<close>

definition subject :: "pyval \<Rightarrow> string" where
  "subject booking_reference =
     (let successful_subject = ''Booking confirmation for '' @ py_str booking_reference;
          unsuccessful_subject = ''Unable to process booking for '' @ py_str booking_reference
      in if truthy booking_reference then successful_subject else unsuccessful_subject)"

definition booking_status :: "pyval \<Rightarrow> string" where
  "booking_status booking_reference =
     (if truthy booking_reference then ''confirmed'' else ''cancelled'')"

definition notify_request :: "string option \<Rightarrow> pyval \<Rightarrow> pyval \<Rightarrow> publish_request" where
  "notify_request booking_sns_topic payload booking_reference =
     \<lparr>TopicArn = booking_sns_topic,
      Message = json_dumps payload,
      Subject = subject booking_reference,
      MessageAttributes =
        [(''Booking.Status'',
          \<lparr>DataType = ''String'', StringValue = booking_status booking_reference\<rparr>)]\<rparr>"

text \<open>
  The tracing subsegment. When the trace of the invocation is sampled,
  \<open>put_metadata(key, value, namespace)\<close> stores the value under the key in a
  dictionary of the subsegment, and a key that cannot be hashed, a list or a
  dictionary, makes that store raise \<open>TypeError\<close>. When the trace is not sampled
  the subsegment is a dummy whose methods do nothing. \<open>put_annotation\<close> checks its
  arguments and drops what it does not accept; it never raises. What the
  subsegment records is not part of the world. The function runs in the Lambda
  runtime, where a segment is always open; a run without one is not modelled.
\<close>

fun hashable :: "pyval \<Rightarrow> bool" where
  "hashable (PList xs) = False"
| "hashable (PDict kvs) = False"
| "hashable v = True"

definition put_metadata :: "bool \<Rightarrow> pyval \<Rightarrow> unit result" where
  "put_metadata sampled key =
     (if sampled \<and> \<not> hashable key then Inl (TypeError (type_name key)) else Inr ())"

text \<open>
  \<open>notify_booking\<close>: one publish call. A returned response is read at
  \<open>"MessageId"\<close> and then stored as metadata of the subsegment under the booking
  reference; a \<open>ClientError\<close> is caught and its response is read at
  \<open>["Error"]["Message"]\<close> for the argument of the exception raised in its place. A
  failing subscript, a failing store and any other exception of the client raise
  from where they stand; nothing catches them.
\<close>

definition notify_booking ::
  "'s sns_client \<Rightarrow> string option \<Rightarrow> bool \<Rightarrow> pyval \<Rightarrow> pyval \<Rightarrow> 's world \<Rightarrow>
   pydict result \<times> 's world" where
  "notify_booking sns booking_sns_topic sampled payload booking_reference w =
     (let (outcome, w') =
            sns_publish sns (notify_request booking_sns_topic payload booking_reference) w
      in case outcome of
           Returned ret \<Rightarrow>
             (case dict_getitem ret ''MessageId'' of
                Inl e \<Rightarrow> (Inl e, w')
              | Inr message_id \<Rightarrow>
                  (case put_metadata sampled booking_reference of
                     Inl e \<Rightarrow> (Inl e, w')
                   | Inr _ \<Rightarrow> (Inr [(''notificationId'', message_id)], w')))
         | OtherError name \<Rightarrow> (Inl (BotoCoreError name), w')
         | ClientError response \<Rightarrow>
             (case dict_getitem response ''Error'' of
                Inl e \<Rightarrow> (Inl e, w')
              | Inr err \<Rightarrow>
                  (case py_getitem err ''Message'' of
                     Inl e \<Rightarrow> (Inl e, w')
                   | Inr msg \<Rightarrow> (Inl (BookingNotificationException (ArgValue msg)), w'))))"

section \<open>The entry point\<close>

text \<open>
  \<open>lambda_handler\<close>: the event is a dictionary. The three fields are read in the
  order of the source; \<open>event.get("payment", False)\<close> is any value, and \<open>.get\<close> on
  it raises unless it is a dictionary. The \<open>try\<close> block catches
  \<open>BookingNotificationException\<close> only, and raises a new one whose argument is the
  caught exception. The tracing decorator around the handler records the
  invocation and changes neither its result nor the world.
\<close>

definition lambda_handler ::
  "'s sns_client \<Rightarrow> string option \<Rightarrow> bool \<Rightarrow> pydict \<Rightarrow> 's world \<Rightarrow>
   pyval result \<times> 's world" where
  "lambda_handler sns booking_sns_topic sampled event w =
     (let customer_id = dict_get event ''customerId'' (PBool False)
      in case py_get (dict_get event ''payment'' (PBool False)) ''price'' (PBool False) of
           Inl e \<Rightarrow> (Inl e, w)
         | Inr price \<Rightarrow>
             (let booking_reference = dict_get event ''bookingReference'' (PBool False)
              in if \<not> truthy customer_id \<and> \<not> truthy price
                 then (Inl (ValueError ''Invalid customer and price''), w)
                 else
                   (let payload = PDict [(''customerId'', customer_id), (''price'', price)]
                    in case notify_booking sns booking_sns_topic sampled payload
                              booking_reference w of
                         (Inl (BookingNotificationException a), w') \<Rightarrow>
                           (Inl (BookingNotificationException
                                   (ArgException (BookingNotificationException a))), w')
                       | (Inl e, w') \<Rightarrow> (Inl e, w')
                       | (Inr ret, w') \<Rightarrow> (dict_getitem ret ''notificationId'', w'))))"

section \<open>Stubbed services\<close>

text \<open>
  Two services for concrete runs: one accepts every request and answers with the
  given delivery identifier, the other rejects every request with the given
  message. Both count the requests they have seen. The runs publish to the topic
  \<open>booking_topic\<close>.
\<close>

definition booking_topic :: "string option" where
  "booking_topic = Some ''arn:aws:sns:eu-west-1:123456789012:booking''"

definition stub_success :: "string \<Rightarrow> nat sns_client" where
  "stub_success ident request n = (Returned [(''MessageId'', PStr ident)], Suc n)"

definition stub_failure :: "string \<Rightarrow> nat sns_client" where
  "stub_failure msg request n =
     (ClientError [(''Error'', PDict [(''Code'', PStr ''NotFound''), (''Message'', PStr msg)])],
      Suc n)"

definition fresh :: "nat world" where
  "fresh = \<lparr>service = 0, published = []\<rparr>"

section \<open>Basic facts\<close>

lemma published_fresh: "published fresh = []"
  by (simp add: fresh_def)

lemma service_fresh: "service fresh = 0"
  by (simp add: fresh_def)

lemma falsy_cases:
  "\<not> truthy r \<longleftrightarrow>
     r = PNone \<or> r = PBool False \<or> r = PInt 0 \<or> r = PStr [] \<or> r = PList [] \<or> r = PDict []"
  by (cases r) auto

lemma str_int_0: "str_int 0 = ''0''"
  by code_simp

lemma py_str_falsy_empty: "\<not> truthy r \<Longrightarrow> py_str r = [] \<longleftrightarrow> r = PStr []"
  by (auto simp add: falsy_cases str_int_0)

lemma py_getitem_not_ValueError: "py_getitem v key \<noteq> Inl (ValueError m)"
  by (cases v) (simp_all add: dict_getitem_def split: option.splits)

lemma py_getitem_not_notification:
  "py_getitem v key \<noteq> Inl (BookingNotificationException a)"
  by (cases v) (simp_all add: dict_getitem_def split: option.splits)

lemma put_metadata_stored: "hashable key \<or> \<not> sampled \<Longrightarrow> put_metadata sampled key = Inr ()"
  by (auto simp add: put_metadata_def)

lemma put_metadata_error:
  "put_metadata sampled key = Inl e \<longleftrightarrow> sampled \<and> \<not> hashable key \<and> e = TypeError (type_name key)"
  by (auto simp add: put_metadata_def)

subsection \<open>One call of the notifier\<close>

text \<open>
  Whatever the client answers, \<open>notify_booking\<close> makes exactly one publish call,
  with the arguments \<open>notify_request\<close> builds, and leaves the service in the state
  that call produced.
\<close>

lemma notify_booking_world:
  "sns (notify_request topic payload r) (service w) = (outcome, s') \<Longrightarrow>
   snd (notify_booking sns topic sampled payload r w) =
     \<lparr>service = s', published = published w @ [notify_request topic payload r]\<rparr>"
  by (simp add: notify_booking_def sns_publish_def split: publish_outcome.splits sum.splits)

lemma notify_booking_published:
  "published (snd (notify_booking sns topic sampled payload r w)) =
     published w @ [notify_request topic payload r]"
  by (cases "sns (notify_request topic payload r) (service w)")
     (simp add: notify_booking_world)

lemma notify_booking_returned:
  "sns (notify_request topic payload r) (service w) = (Returned ret, s') \<Longrightarrow>
   fst (notify_booking sns topic sampled payload r w) =
     (case dict_getitem ret ''MessageId'' of
        Inl e \<Rightarrow> Inl e
      | Inr message_id \<Rightarrow>
          (case put_metadata sampled r of
             Inl e \<Rightarrow> Inl e
           | Inr _ \<Rightarrow> Inr [(''notificationId'', message_id)]))"
  by (simp add: notify_booking_def sns_publish_def split: sum.splits)

lemma notify_booking_raised:
  "sns (notify_request topic payload r) (service w) = (ClientError response, s') \<Longrightarrow>
   fst (notify_booking sns topic sampled payload r w) =
     (case dict_getitem response ''Error'' of
        Inl e \<Rightarrow> Inl e
      | Inr err \<Rightarrow>
          (case py_getitem err ''Message'' of
             Inl e \<Rightarrow> Inl e
           | Inr msg \<Rightarrow> Inl (BookingNotificationException (ArgValue msg))))"
  by (simp add: notify_booking_def sns_publish_def split: sum.splits)

lemma notify_booking_other:
  "sns (notify_request topic payload r) (service w) = (OtherError name, s') \<Longrightarrow>
   fst (notify_booking sns topic sampled payload r w) = Inl (BotoCoreError name)"
  by (simp add: notify_booking_def sns_publish_def)

lemma notify_booking_not_ValueError:
  "fst (notify_booking sns topic sampled payload r w) \<noteq> Inl (ValueError m)"
proof (cases "sns (notify_request topic payload r) (service w)")
  case (Pair outcome s')
  show ?thesis
  proof (cases outcome)
    case (Returned ret)
    with Pair show ?thesis
      by (auto simp add: notify_booking_returned dict_getitem_def put_metadata_def
            split: option.splits)
  next
    case (ClientError response)
    with Pair show ?thesis
      by (auto simp add: notify_booking_raised dict_getitem_def py_getitem_not_ValueError
            split: option.splits sum.splits)
  next
    case (OtherError name)
    with Pair show ?thesis
      by (simp add: notify_booking_other)
  qed
qed

subsection \<open>The two ways through the extraction\<close>

text \<open>
  The handler gets past the extraction of \<open>price\<close> exactly when the value found
  under \<open>"payment"\<close> is a dictionary. Every other value, the default \<open>False\<close> of
  an absent key included, ends the invocation with \<open>AttributeError\<close> before the
  validation.
\<close>

lemma lambda_handler_no_payment_dict:
  "\<forall>pay. dict_get event ''payment'' (PBool False) \<noteq> PDict pay \<Longrightarrow>
   lambda_handler sns topic sampled event w =
     (Inl (AttributeError (type_name (dict_get event ''payment'' (PBool False))) ''get''), w)"
  by (cases "dict_get event ''payment'' (PBool False)") (simp_all add: lambda_handler_def)

lemma lambda_handler_payment_absent:
  "map_of event ''payment'' = None \<Longrightarrow>
   lambda_handler sns topic sampled event w = (Inl (AttributeError ''bool'' ''get''), w)"
  by (simp add: lambda_handler_def dict_get_def)

lemma lambda_handler_payment_dict:
  "dict_get event ''payment'' (PBool False) = PDict pay \<Longrightarrow>
   lambda_handler sns topic sampled event w =
     (let customer_id = dict_get event ''customerId'' (PBool False);
          price = dict_get pay ''price'' (PBool False);
          booking_reference = dict_get event ''bookingReference'' (PBool False)
      in if \<not> truthy customer_id \<and> \<not> truthy price
         then (Inl (ValueError ''Invalid customer and price''), w)
         else
           (let payload = PDict [(''customerId'', customer_id), (''price'', price)]
            in case notify_booking sns topic sampled payload booking_reference w of
                 (Inl (BookingNotificationException a), w') \<Rightarrow>
                   (Inl (BookingNotificationException
                           (ArgException (BookingNotificationException a))), w')
               | (Inl e, w') \<Rightarrow> (Inl e, w')
               | (Inr ret, w') \<Rightarrow> (dict_getitem ret ''notificationId'', w')))"
  by (simp add: lambda_handler_def Let_def)

text \<open>
  Once \<open>"payment"\<close> is a dictionary, the handler raises \<open>ValueError\<close> exactly when
  both \<open>customerId\<close> and \<open>price\<close> are false-like.
\<close>

lemma lambda_handler_ValueError_iff:
  assumes "dict_get event ''payment'' (PBool False) = PDict pay"
  shows "(\<exists>m. fst (lambda_handler sns topic sampled event w) = Inl (ValueError m)) \<longleftrightarrow>
         \<not> truthy (dict_get event ''customerId'' (PBool False)) \<and>
         \<not> truthy (dict_get pay ''price'' (PBool False))"
proof -
  let ?payload = "PDict [(''customerId'', dict_get event ''customerId'' (PBool False)),
                         (''price'', dict_get pay ''price'' (PBool False))]"
  let ?ref = "dict_get event ''bookingReference'' (PBool False)"
  obtain res w' where nb: "notify_booking sns topic sampled ?payload ?ref w = (res, w')"
    by (cases "notify_booking sns topic sampled ?payload ?ref w")
  have nv: "res \<noteq> Inl (ValueError m)" for m
    using notify_booking_not_ValueError [of sns topic sampled ?payload ?ref w m] nb by simp
  show ?thesis
    using nv
    by (auto simp add: lambda_handler_payment_dict [OF assms] Let_def nb dict_getitem_def
          split: sum.splits py_exception.splits option.splits)
qed

section \<open>Properties of the notifier\<close>

text \<open>
  Claim C7. For every truthy booking reference \<open>r\<close>, \<open>notify_booking\<close> computes
  the subject "Booking confirmation for " followed by the text of \<open>r\<close> and the
  status "confirmed", and the one request it publishes carries exactly that subject
  and that status.
\<close>

theorem truthy_reference_subject:
  assumes "truthy r"
  shows "published (snd (notify_booking sns topic sampled payload r w)) =
           published w @
           [\<lparr>TopicArn = topic, Message = json_dumps payload,
             Subject = ''Booking confirmation for '' @ py_str r,
             MessageAttributes =
               [(''Booking.Status'', \<lparr>DataType = ''String'', StringValue = ''confirmed''\<rparr>)]\<rparr>]"
  using assms
  by (simp add: notify_booking_published notify_request_def subject_def booking_status_def)

text \<open>The reference \<open>"BK-9"\<close> gives the subject "Booking confirmation for BK-9".\<close>

theorem truthy_reference_subject_witness:
  "truthy (PStr ''BK-9'') \<and>
   published (snd (notify_booking (stub_success ''abc-123'') booking_topic True (PDict [])
     (PStr ''BK-9'') fresh)) =
     [\<lparr>TopicArn = booking_topic, Message = ''{}'',
       Subject = ''Booking confirmation for BK-9'',
       MessageAttributes =
         [(''Booking.Status'', \<lparr>DataType = ''String'', StringValue = ''confirmed''\<rparr>)]\<rparr>]"
proof -
  have t: "truthy (PStr ''BK-9'')"
    by simp
  from truthy_reference_subject
    [where r = "PStr ''BK-9''" and sns = "stub_success ''abc-123''" and topic = booking_topic
       and sampled = True and payload = "PDict []" and w = fresh, OF t] t
  show ?thesis
    by (simp add: published_fresh)
qed

text \<open>
  Claim C3 says that for a false-like booking reference the subject is the literal
  "Unable to process booking for ", the reference rendered as empty text. The
  f-string renders the reference itself: \<open>False\<close>, the value the handler passes
  when the event has no \<open>bookingReference\<close>, is rendered as "False".
\<close>

theorem falsy_reference_subject_counterexample:
  "\<not> truthy (PBool False) \<and>
   map Subject (published (snd (notify_booking (stub_success ''abc-123'') booking_topic True
     (PDict []) (PBool False) fresh))) = [''Unable to process booking for False''] \<and>
   ''Unable to process booking for False'' \<noteq> ''Unable to process booking for ''"
  by (simp add: notify_booking_published notify_request_def subject_def fresh_def)

text \<open>
  Claim C3, amended. For every false-like booking reference \<open>r\<close>,
  \<open>notify_booking\<close> computes the subject "Unable to process booking for " followed
  by the text of \<open>r\<close>, and the status "cancelled". The text of \<open>r\<close> is empty only
  when \<open>r\<close> is the empty string; it is "None" for \<open>None\<close>, "False" for \<open>False\<close>,
  "0" for zero, "[]" for the empty list and "{}" for the empty dictionary, and
  there is no other false-like value.
\<close>

theorem falsy_reference_subject:
  assumes "\<not> truthy r"
  shows "published (snd (notify_booking sns topic sampled payload r w)) =
           published w @
           [\<lparr>TopicArn = topic, Message = json_dumps payload,
             Subject = ''Unable to process booking for '' @ py_str r,
             MessageAttributes =
               [(''Booking.Status'', \<lparr>DataType = ''String'', StringValue = ''cancelled''\<rparr>)]\<rparr>]
         \<and> (py_str r = [] \<longleftrightarrow> r = PStr [])
         \<and> (r = PNone \<and> py_str r = ''None'' \<or> r = PBool False \<and> py_str r = ''False'' \<or>
            r = PInt 0 \<and> py_str r = ''0'' \<or> r = PStr [] \<and> py_str r = [] \<or>
            r = PList [] \<and> py_str r = ''[]'' \<or> r = PDict [] \<and> py_str r = ''{}'')"
proof (intro conjI)
  show "published (snd (notify_booking sns topic sampled payload r w)) =
           published w @
           [\<lparr>TopicArn = topic, Message = json_dumps payload,
             Subject = ''Unable to process booking for '' @ py_str r,
             MessageAttributes =
               [(''Booking.Status'', \<lparr>DataType = ''String'', StringValue = ''cancelled''\<rparr>)]\<rparr>]"
    using assms
    by (simp add: notify_booking_published notify_request_def subject_def booking_status_def)
  show "py_str r = [] \<longleftrightarrow> r = PStr []"
    using assms by (rule py_str_falsy_empty)
  show "r = PNone \<and> py_str r = ''None'' \<or> r = PBool False \<and> py_str r = ''False'' \<or>
        r = PInt 0 \<and> py_str r = ''0'' \<or> r = PStr [] \<and> py_str r = [] \<or>
        r = PList [] \<and> py_str r = ''[]'' \<or> r = PDict [] \<and> py_str r = ''{}''"
    using assms by (auto simp add: falsy_cases str_int_0)
qed

text \<open>The reference \<open>None\<close> gives the subject "Unable to process booking for None".\<close>

theorem falsy_reference_subject_witness:
  "\<not> truthy PNone \<and>
   published (snd (notify_booking (stub_success ''abc-123'') booking_topic True (PDict [])
     PNone fresh)) =
     [\<lparr>TopicArn = booking_topic, Message = ''{}'',
       Subject = ''Unable to process booking for None'',
       MessageAttributes =
         [(''Booking.Status'', \<lparr>DataType = ''String'', StringValue = ''cancelled''\<rparr>)]\<rparr>]"
  using falsy_reference_subject
    [where r = PNone and sns = "stub_success ''abc-123''" and topic = booking_topic
       and sampled = True and payload = "PDict []" and w = fresh]
  by (simp add: fresh_def)

text \<open>
  Claim C10. Every publish call of \<open>notify_booking\<close> carries exactly one message
  attribute, keyed "Booking.Status", of data type "String", whose value is
  "confirmed" or "cancelled", whatever the payload, the booking reference and the
  answer of the service.
\<close>

theorem publish_has_one_status_attribute:
  "\<exists>request v.
     published (snd (notify_booking sns topic sampled payload r w)) = published w @ [request] \<and>
     MessageAttributes request =
       [(''Booking.Status'', \<lparr>DataType = ''String'', StringValue = v\<rparr>)] \<and>
     (v = ''confirmed'' \<or> v = ''cancelled'')"
proof (intro exI conjI)
  show "published (snd (notify_booking sns topic sampled payload r w)) =
      published w @ [notify_request topic payload r]"
    by (rule notify_booking_published)
  show "MessageAttributes (notify_request topic payload r) =
      [(''Booking.Status'', \<lparr>DataType = ''String'', StringValue = booking_status r\<rparr>)]"
    by (simp add: notify_request_def)
  show "booking_status r = ''confirmed'' \<or> booking_status r = ''cancelled''"
    by (simp add: booking_status_def)
qed

text \<open>The same on one run against a service that rejects the request.\<close>

theorem publish_has_one_status_attribute_witness:
  "\<exists>request v.
     published (snd (notify_booking (stub_failure ''Topic not found'') booking_topic True
       (PDict []) (PInt 7) fresh)) = [request] \<and>
     MessageAttributes request =
       [(''Booking.Status'', \<lparr>DataType = ''String'', StringValue = v\<rparr>)] \<and>
     (v = ''confirmed'' \<or> v = ''cancelled'')"
  using publish_has_one_status_attribute
    [where sns = "stub_failure ''Topic not found''" and topic = booking_topic
       and sampled = True and payload = "PDict []" and r = "PInt 7" and w = fresh]
  by (simp only: published_fresh append_Nil)

text \<open>
  Claim C5 says that every successful publish call whose response carries a
  delivery identifier makes \<open>notify_booking\<close> return the record around that
  identifier. With a sampled trace and the empty list as booking reference, the
  publish call succeeds with "abc-123", the store of the response under the
  reference raises \<open>TypeError\<close>, and no record is returned.
\<close>

theorem notify_booking_unhashable_reference_counterexample:
  "stub_success ''abc-123'' (notify_request booking_topic (PDict []) (PList [])) (service fresh) =
     (Returned [(''MessageId'', PStr ''abc-123'')], 1) \<and>
   notify_booking (stub_success ''abc-123'') booking_topic True (PDict []) (PList []) fresh =
     (Inl (TypeError ''list''),
      \<lparr>service = 1, published = [notify_request booking_topic (PDict []) (PList [])]\<rparr>)"
  by (simp add: notify_booking_def sns_publish_def stub_success_def dict_getitem_def
        put_metadata_def fresh_def)

text \<open>
  Claim C5, amended. When the publish call succeeds and the provider's response
  carries the delivery identifier \<open>message_id\<close> under \<open>"MessageId"\<close>, and the
  booking reference is hashable (anything but a list or a dictionary) or the trace
  is not sampled, \<open>notify_booking\<close> returns the record
  \<open>{notificationId: message_id}\<close>, after that one call.
\<close>

theorem notify_booking_returns_message_id:
  assumes "sns (notify_request topic payload r) (service w) = (Returned ret, s')"
      and "dict_getitem ret ''MessageId'' = Inr message_id"
      and "hashable r \<or> \<not> sampled"
  shows "notify_booking sns topic sampled payload r w =
           (Inr [(''notificationId'', message_id)],
            \<lparr>service = s', published = published w @ [notify_request topic payload r]\<rparr>)"
  using assms
  by (simp add: prod_eq_iff notify_booking_returned notify_booking_world put_metadata_stored)

text \<open>
  A service answering "abc-123", a sampled trace and the reference "BK-9" give
  \<open>{notificationId: "abc-123"}\<close>.
\<close>

theorem notify_booking_returns_message_id_witness:
  "notify_booking (stub_success ''abc-123'') booking_topic True (PDict []) (PStr ''BK-9'') fresh =
     (Inr [(''notificationId'', PStr ''abc-123'')],
      \<lparr>service = 1, published = [notify_request booking_topic (PDict []) (PStr ''BK-9'')]\<rparr>)"
proof -
  have run: "stub_success ''abc-123'' (notify_request booking_topic (PDict []) (PStr ''BK-9''))
      (service fresh) = (Returned [(''MessageId'', PStr ''abc-123'')], 1)"
    by (simp add: stub_success_def service_fresh)
  have mid: "dict_getitem [(''MessageId'', PStr ''abc-123'')] ''MessageId'' = Inr (PStr ''abc-123'')"
    by (simp add: dict_getitem_def)
  have key: "hashable (PStr ''BK-9'') \<or> \<not> True"
    by simp
  from notify_booking_returns_message_id
    [where sns = "stub_success ''abc-123''" and topic = booking_topic and sampled = True
       and payload = "PDict []" and r = "PStr ''BK-9''" and w = fresh, OF run mid key]
  show ?thesis
    by (simp only: published_fresh append_Nil)
qed

text \<open>
  Claim C4 says that the translation of a provider error is the only error path of
  \<open>notify_booking\<close>, with no other kind of error. With a sampled trace and a
  dictionary as booking reference, the publish call succeeds, no provider error is
  raised, and \<open>notify_booking\<close> ends with \<open>TypeError\<close>.
\<close>

theorem notify_booking_other_error_counterexample:
  "fst (stub_success ''abc-123''
         (notify_request booking_topic (PDict []) (PDict [(''ref'', PStr ''BK-9'')]))
         (service fresh)) = Returned [(''MessageId'', PStr ''abc-123'')] \<and>
   fst (notify_booking (stub_success ''abc-123'') booking_topic True (PDict [])
         (PDict [(''ref'', PStr ''BK-9'')]) fresh) = Inl (TypeError ''dict'')"
  by (simp add: notify_booking_def sns_publish_def stub_success_def dict_getitem_def
        put_metadata_def fresh_def)

text \<open>
  Claim C4, amended. When the publish call raises a provider error whose response
  carries the message \<open>M\<close>, \<open>notify_booking\<close> raises \<open>BookingNotificationException\<close>
  with exactly \<open>M\<close> as its argument. A \<open>BookingNotificationException\<close> comes from
  a provider error and from nothing else, and the client is called exactly once
  whatever it answers, so nothing is retried. An exception of the client that is
  not a provider error is not translated: it passes through \<open>notify_booking\<close> as
  it is.
\<close>

theorem client_error_becomes_notification_exception:
  assumes "sns (notify_request topic payload r) (service w) = (outcome, s')"
  shows "(\<forall>response err M.
            outcome = ClientError response \<and> dict_getitem response ''Error'' = Inr err \<and>
            py_getitem err ''Message'' = Inr M \<longrightarrow>
            fst (notify_booking sns topic sampled payload r w) =
              Inl (BookingNotificationException (ArgValue M)))
         \<and> (\<forall>a. fst (notify_booking sns topic sampled payload r w) =
                   Inl (BookingNotificationException a) \<longrightarrow>
                 (\<exists>response err M.
                    outcome = ClientError response \<and> dict_getitem response ''Error'' = Inr err \<and>
                    py_getitem err ''Message'' = Inr M \<and> a = ArgValue M))
         \<and> (\<forall>name. outcome = OtherError name \<longrightarrow>
                 fst (notify_booking sns topic sampled payload r w) = Inl (BotoCoreError name))
         \<and> snd (notify_booking sns topic sampled payload r w) =
             \<lparr>service = s', published = published w @ [notify_request topic payload r]\<rparr>"
proof (intro conjI allI impI)
  fix response err M
  assume "outcome = ClientError response \<and> dict_getitem response ''Error'' = Inr err \<and>
          py_getitem err ''Message'' = Inr M"
  with assms show "fst (notify_booking sns topic sampled payload r w) =
      Inl (BookingNotificationException (ArgValue M))"
    by (simp add: notify_booking_raised)
next
  fix a
  assume bne: "fst (notify_booking sns topic sampled payload r w) =
      Inl (BookingNotificationException a)"
  show "\<exists>response err M.
          outcome = ClientError response \<and> dict_getitem response ''Error'' = Inr err \<and>
          py_getitem err ''Message'' = Inr M \<and> a = ArgValue M"
  proof (cases outcome)
    case (Returned ret)
    with assms bne show ?thesis
      by (auto simp add: notify_booking_returned dict_getitem_def put_metadata_def
            split: sum.splits option.splits if_splits)
  next
    case (ClientError response)
    with assms bne show ?thesis
      by (auto simp add: notify_booking_raised dict_getitem_def py_getitem_not_notification
            split: sum.splits option.splits)
  next
    case (OtherError name)
    with assms bne show ?thesis
      by (simp add: notify_booking_other)
  qed
next
  fix name
  assume "outcome = OtherError name"
  with assms show "fst (notify_booking sns topic sampled payload r w) = Inl (BotoCoreError name)"
    by (simp add: notify_booking_other)
next
  from assms show "snd (notify_booking sns topic sampled payload r w) =
      \<lparr>service = s', published = published w @ [notify_request topic payload r]\<rparr>"
    by (rule notify_booking_world)
qed

text \<open>
  A service rejecting the request with "Topic not found" gives a
  \<open>BookingNotificationException\<close> with the argument "Topic not found", after one
  call.
\<close>

theorem client_error_becomes_notification_exception_witness:
  "stub_failure ''Topic not found'' (notify_request booking_topic (PDict []) (PStr ''BK-9''))
     (service fresh) =
     (ClientError [(''Error'', PDict [(''Code'', PStr ''NotFound''),
                                      (''Message'', PStr ''Topic not found'')])], 1)
   \<and> fst (notify_booking (stub_failure ''Topic not found'') booking_topic True (PDict [])
          (PStr ''BK-9'') fresh) =
       Inl (BookingNotificationException (ArgValue (PStr ''Topic not found'')))
   \<and> snd (notify_booking (stub_failure ''Topic not found'') booking_topic True (PDict [])
          (PStr ''BK-9'') fresh) =
       \<lparr>service = 1, published = [notify_request booking_topic (PDict []) (PStr ''BK-9'')]\<rparr>"
proof -
  let ?response = "[(''Error'', PDict [(''Code'', PStr ''NotFound''),
                                       (''Message'', PStr ''Topic not found'')])]"
  have run: "stub_failure ''Topic not found''
      (notify_request booking_topic (PDict []) (PStr ''BK-9'')) (service fresh) =
      (ClientError ?response, 1)"
    by (simp add: stub_failure_def service_fresh)
  have err: "dict_getitem ?response ''Error'' =
      Inr (PDict [(''Code'', PStr ''NotFound''), (''Message'', PStr ''Topic not found'')])"
    by (simp add: dict_getitem_def)
  have msg: "py_getitem (PDict [(''Code'', PStr ''NotFound''),
      (''Message'', PStr ''Topic not found'')]) ''Message'' = Inr (PStr ''Topic not found'')"
    by (simp add: dict_getitem_def)
  note inst = client_error_becomes_notification_exception
      [where sns = "stub_failure ''Topic not found''" and topic = booking_topic
         and sampled = True and payload = "PDict []" and r = "PStr ''BK-9''" and w = fresh,
       OF run]
  from inst err msg
  have res: "fst (notify_booking (stub_failure ''Topic not found'') booking_topic True (PDict [])
      (PStr ''BK-9'') fresh) =
      Inl (BookingNotificationException (ArgValue (PStr ''Topic not found'')))"
    by blast
  from inst
  have wld: "snd (notify_booking (stub_failure ''Topic not found'') booking_topic True (PDict [])
      (PStr ''BK-9'') fresh) =
      \<lparr>service = 1,
        published = published fresh @ [notify_request booking_topic (PDict []) (PStr ''BK-9'')]\<rparr>"
    by blast
  from run res wld show ?thesis
    by (simp only: published_fresh append_Nil simp_thms)
qed

section \<open>Properties of the entry point\<close>

text \<open>
  Claim C1 says that an event without the \<open>payment\<close> field has its price taken as
  a false-like default and passes validation when \<open>customerId\<close> is truthy. On the
  event \<open>{"customerId": "cust-1"}\<close> the handler stops at the extraction instead:
  the default \<open>False\<close> of \<open>event.get("payment", False)\<close> has no method \<open>get\<close>, and
  the invocation ends with \<open>AttributeError\<close>, no request sent.
\<close>

theorem lambda_handler_without_payment:
  "lambda_handler sns topic sampled [(''customerId'', PStr ''cust-1'')] w =
     (Inl (AttributeError ''bool'' ''get''), w)"
  by (simp add: lambda_handler_def dict_get_def)

text \<open>
  Claim C2 says that the handler raises \<open>ValueError\<close> exactly when both
  \<open>customerId\<close> and \<open>price\<close> are absent or false-like. On the empty event both are
  absent, and the handler ends with \<open>AttributeError\<close> at the extraction of the
  price, before the validation is reached.
\<close>

theorem lambda_handler_empty_event:
  "lambda_handler sns topic sampled [] w = (Inl (AttributeError ''bool'' ''get''), w)"
  by (simp add: lambda_handler_def dict_get_def)

text \<open>
  Claim C8. Whenever the handler raises \<open>ValueError\<close>, it is the invalid-input
  error, both \<open>customerId\<close> and \<open>price\<close> are false-like, and the world is the one
  the invocation started in: no request was sent and the state of the service is
  unchanged.
\<close>

theorem invalid_input_no_effect:
  assumes "fst (lambda_handler sns topic sampled event w) = Inl (ValueError m)"
  shows "lambda_handler sns topic sampled event w =
           (Inl (ValueError ''Invalid customer and price''), w)
         \<and> \<not> truthy (dict_get event ''customerId'' (PBool False))
         \<and> (\<exists>pay. dict_get event ''payment'' (PBool False) = PDict pay \<and>
                   \<not> truthy (dict_get pay ''price'' (PBool False)))"
proof (cases "\<exists>pay. dict_get event ''payment'' (PBool False) = PDict pay")
  case False
  then have "lambda_handler sns topic sampled event w =
      (Inl (AttributeError (type_name (dict_get event ''payment'' (PBool False))) ''get''), w)"
    by (simp add: lambda_handler_no_payment_dict)
  with assms show ?thesis
    by simp
next
  case True
  then obtain pay where pay: "dict_get event ''payment'' (PBool False) = PDict pay"
    by blast
  from assms have "\<exists>m. fst (lambda_handler sns topic sampled event w) = Inl (ValueError m)"
    by blast
  then have falsy: "\<not> truthy (dict_get event ''customerId'' (PBool False)) \<and>
      \<not> truthy (dict_get pay ''price'' (PBool False))"
    by (simp add: lambda_handler_ValueError_iff [OF pay])
  then have "lambda_handler sns topic sampled event w =
      (Inl (ValueError ''Invalid customer and price''), w)"
    by (simp add: lambda_handler_payment_dict [OF pay])
  with falsy pay show ?thesis
    by simp
qed

text \<open>
  The event \<open>{customerId: None, payment: {price: None}, bookingReference: None}\<close>
  raises the invalid-input error and leaves the world as it was.
\<close>

theorem invalid_input_no_effect_witness:
  "lambda_handler (stub_success ''msg-1'') booking_topic True
     [(''customerId'', PNone), (''payment'', PDict [(''price'', PNone)]),
      (''bookingReference'', PNone)] fresh =
   (Inl (ValueError ''Invalid customer and price''), fresh)"
proof -
  let ?event = "[(''customerId'', PNone), (''payment'', PDict [(''price'', PNone)]),
                 (''bookingReference'', PNone)]"
  have raised: "fst (lambda_handler (stub_success ''msg-1'') booking_topic True ?event fresh) =
      Inl (ValueError ''Invalid customer and price'')"
    by (simp add: lambda_handler_def dict_get_def)
  from invalid_input_no_effect [OF raised] show ?thesis
    by (rule conjunct1)
qed

text \<open>
  Claim C6 says that every event that passes validation and whose publish call
  succeeds makes the handler return the identifier. With a sampled trace, the
  event \<open>{customerId: "cust-1", payment: {price: "100"}, bookingReference: []}\<close>
  passes validation, its publish call succeeds with "msg-1", and the handler ends
  with the \<open>TypeError\<close> that \<open>notify_booking\<close> raises when it stores the response
  under the list.
\<close>

theorem lambda_handler_unhashable_reference_counterexample:
  "lambda_handler (stub_success ''msg-1'') booking_topic True
     [(''customerId'', PStr ''cust-1''), (''payment'', PDict [(''price'', PStr ''100'')]),
      (''bookingReference'', PList [])] fresh =
   (Inl (TypeError ''list''),
    \<lparr>service = 1,
      published = [notify_request booking_topic
         (PDict [(''customerId'', PStr ''cust-1''), (''price'', PStr ''100'')]) (PList [])]\<rparr>)"
  by (simp add: lambda_handler_def notify_booking_def sns_publish_def stub_success_def
        dict_getitem_def dict_get_def put_metadata_def fresh_def)

text \<open>
  Claim C6, amended. For every event that passes the extraction and the
  validation and whose booking reference is hashable (anything but a list or a
  dictionary), or whose trace is not sampled, when the publish call succeeds and
  the response carries the identifier \<open>message_id\<close>, the handler returns
  \<open>message_id\<close> itself, not the record around it.
\<close>

theorem lambda_handler_returns_notification_id:
  assumes pay: "dict_get event ''payment'' (PBool False) = PDict pay"
      and valid: "truthy (dict_get event ''customerId'' (PBool False)) \<or>
                  truthy (dict_get pay ''price'' (PBool False))"
      and run: "sns (notify_request topic
                  (PDict [(''customerId'', dict_get event ''customerId'' (PBool False)),
                          (''price'', dict_get pay ''price'' (PBool False))])
                  (dict_get event ''bookingReference'' (PBool False))) (service w) =
                (Returned ret, s')"
      and mid: "dict_getitem ret ''MessageId'' = Inr message_id"
      and key: "hashable (dict_get event ''bookingReference'' (PBool False)) \<or> \<not> sampled"
  shows "fst (lambda_handler sns topic sampled event w) = Inr message_id"
proof -
  let ?payload = "PDict [(''customerId'', dict_get event ''customerId'' (PBool False)),
                         (''price'', dict_get pay ''price'' (PBool False))]"
  let ?ref = "dict_get event ''bookingReference'' (PBool False)"
  have "fst (notify_booking sns topic sampled ?payload ?ref w) =
      Inr [(''notificationId'', message_id)]"
    using run mid key by (simp add: notify_booking_returned put_metadata_stored)
  then obtain w' where
    "notify_booking sns topic sampled ?payload ?ref w =
       (Inr [(''notificationId'', message_id)], w')"
    by (cases "notify_booking sns topic sampled ?payload ?ref w") simp
  with valid show ?thesis
    by (auto simp add: lambda_handler_payment_dict [OF pay] Let_def dict_getitem_def)
qed

text \<open>
  The event \<open>{customerId: "cust-1", payment: {price: "100"}, bookingReference: "BK-9"}\<close>
  against a service answering "msg-1", with a sampled trace, returns the string
  "msg-1".
\<close>

theorem lambda_handler_returns_notification_id_witness:
  "fst (lambda_handler (stub_success ''msg-1'') booking_topic True
         [(''customerId'', PStr ''cust-1''), (''payment'', PDict [(''price'', PStr ''100'')]),
          (''bookingReference'', PStr ''BK-9'')] fresh) = Inr (PStr ''msg-1'')"
proof -
  let ?event = "[(''customerId'', PStr ''cust-1''), (''payment'', PDict [(''price'', PStr ''100'')]),
                 (''bookingReference'', PStr ''BK-9'')]"
  let ?pay = "[(''price'', PStr ''100'')]"
  have pay: "dict_get ?event ''payment'' (PBool False) = PDict ?pay"
    by (simp add: dict_get_def)
  have valid: "truthy (dict_get ?event ''customerId'' (PBool False)) \<or>
               truthy (dict_get ?pay ''price'' (PBool False))"
    by (simp add: dict_get_def)
  have run: "stub_success ''msg-1'' (notify_request booking_topic
               (PDict [(''customerId'', dict_get ?event ''customerId'' (PBool False)),
                       (''price'', dict_get ?pay ''price'' (PBool False))])
               (dict_get ?event ''bookingReference'' (PBool False))) (service fresh) =
             (Returned [(''MessageId'', PStr ''msg-1'')], 1)"
    by (simp add: stub_success_def service_fresh)
  have mid: "dict_getitem [(''MessageId'', PStr ''msg-1'')] ''MessageId'' = Inr (PStr ''msg-1'')"
    by (simp add: dict_getitem_def)
  have key: "hashable (dict_get ?event ''bookingReference'' (PBool False)) \<or> \<not> True"
    by (simp add: dict_get_def)
  show ?thesis
    by (rule lambda_handler_returns_notification_id
          [where event = ?event and pay = ?pay and sns = "stub_success ''msg-1''"
             and topic = booking_topic and sampled = True and w = fresh,
           OF pay valid run mid key])
qed

text \<open>
  Claim C9. Whenever \<open>notify_booking\<close> raises a \<open>BookingNotificationException\<close>,
  the handler raises a \<open>BookingNotificationException\<close> in turn, built around the
  caught one. It returns no value and does nothing more: the world is the one
  \<open>notify_booking\<close> left.
\<close>

theorem notification_exception_reraised:
  assumes pay: "dict_get event ''payment'' (PBool False) = PDict pay"
      and valid: "truthy (dict_get event ''customerId'' (PBool False)) \<or>
                  truthy (dict_get pay ''price'' (PBool False))"
      and raised: "notify_booking sns topic sampled
                     (PDict [(''customerId'', dict_get event ''customerId'' (PBool False)),
                             (''price'', dict_get pay ''price'' (PBool False))])
                     (dict_get event ''bookingReference'' (PBool False)) w =
                   (Inl (BookingNotificationException a), w')"
  shows "lambda_handler sns topic sampled event w =
           (Inl (BookingNotificationException
                   (ArgException (BookingNotificationException a))), w')"
  using valid raised
  by (auto simp add: lambda_handler_payment_dict [OF pay] Let_def)

text \<open>
  The same event against a service rejecting the request with "Topic not found":
  one request sent, and the exception raised again.
\<close>

theorem notification_exception_reraised_witness:
  "lambda_handler (stub_failure ''Topic not found'') booking_topic True
     [(''customerId'', PStr ''cust-1''), (''payment'', PDict [(''price'', PStr ''100'')]),
      (''bookingReference'', PStr ''BK-9'')] fresh =
   (Inl (BookingNotificationException
           (ArgException (BookingNotificationException (ArgValue (PStr ''Topic not found''))))),
    \<lparr>service = 1,
      published = [notify_request booking_topic
         (PDict [(''customerId'', PStr ''cust-1''), (''price'', PStr ''100'')]) (PStr ''BK-9'')]\<rparr>)"
proof -
  let ?event = "[(''customerId'', PStr ''cust-1''), (''payment'', PDict [(''price'', PStr ''100'')]),
                 (''bookingReference'', PStr ''BK-9'')]"
  let ?pay = "[(''price'', PStr ''100'')]"
  let ?w' = "\<lparr>service = 1,
      published = [notify_request booking_topic
         (PDict [(''customerId'', PStr ''cust-1''), (''price'', PStr ''100'')]) (PStr ''BK-9'')]\<rparr>"
  have pay: "dict_get ?event ''payment'' (PBool False) = PDict ?pay"
    by (simp add: dict_get_def)
  have valid: "truthy (dict_get ?event ''customerId'' (PBool False)) \<or>
               truthy (dict_get ?pay ''price'' (PBool False))"
    by (simp add: dict_get_def)
  have raised: "notify_booking (stub_failure ''Topic not found'') booking_topic True
                     (PDict [(''customerId'', dict_get ?event ''customerId'' (PBool False)),
                             (''price'', dict_get ?pay ''price'' (PBool False))])
                     (dict_get ?event ''bookingReference'' (PBool False)) fresh =
                   (Inl (BookingNotificationException (ArgValue (PStr ''Topic not found''))), ?w')"
    by (simp add: notify_booking_def sns_publish_def stub_failure_def dict_getitem_def
          dict_get_def fresh_def)
  show ?thesis
    by (rule notification_exception_reraised
          [where event = ?event and pay = ?pay and sns = "stub_failure ''Topic not found''"
             and topic = booking_topic and sampled = True and w = fresh,
           OF pay valid raised])
qed

end
